theory Spec2Isabelle
  imports Main
begin

section \<open>Data model of \<^verbatim>\<open>pkg/make-release/dist_builder.go\<close>\<close>

text \<open>
  Go's \<^verbatim>\<open>error\<close> values, each kept as the call of \<^verbatim>\<open>github.com/cockroachdb/errors\<close>
  that built it: \<^verbatim>\<open>errors.New(msg)\<close>, \<^verbatim>\<open>errors.Newf(format, args...)\<close>,
  \<^verbatim>\<open>errors.Wrap(err, msg)\<close> and \<^verbatim>\<open>errors.Wrapf(err, format, args...)\<close>, with the format
  and the arguments as the source passes them (every argument in this file is a string or
  a byte slice printed with \<^verbatim>\<open>%s\<close>). The text the library later renders for such an
  error is its own business and no part of the model: it is not the plain substitution
  of the arguments, since the library replaces its redaction markers (the characters
  U+2039 and U+203A) inside an argument. Every other error comes out of a collaborator
  and is opaque here (\<open>ErrExt\<close>). A Go result of type \<^verbatim>\<open>error\<close> is an \<open>error option\<close>,
  with \<open>None\<close> for \<^verbatim>\<open>nil\<close>.
\<close>

datatype error =
    ErrNew string
  | ErrNewf string "string list"
  | ErrWrap error string
  | ErrWrapf error string "string list"
  | ErrExt string

text \<open>
  The release channels of \<^verbatim>\<open>encr.dev/internal/version\<close>. The package is not among the
  sources; the switch of \<^verbatim>\<open>buildEncoreCLI\<close> names four of its values and has a
  \<^verbatim>\<open>default\<close> branch for every other one, which is \<open>OtherChannel\<close> here.
\<close>

datatype ReleaseChannel = GA | Beta | Nightly | DevBuild | OtherChannel string

text \<open>
  The \<^verbatim>\<open>JSPackager\<close> behind \<^verbatim>\<open>d.jsBuilder\<close>, as far as this file reads it:
  \<open>compileCompleted\<close> says whether the channel of that name ever delivers (a receive on
  it blocks forever otherwise), \<open>compileFailed\<close> is what the atomic flag holds once it
  has, and \<open>DistFolder\<close> is the directory the packager wrote. The pointer \<^verbatim>\<open>d.jsBuilder\<close>
  itself is taken to be non-nil.
\<close>

record JSPackager =
  compileCompleted :: bool
  compileFailed :: bool
  DistFolder :: string

text \<open>The struct \<^verbatim>\<open>DistBuilder\<close>, without its logger.\<close>

record DistBuilder =
  OS :: string
  Arch :: string
  TSParserPath :: string
  DistBuildDir :: string
  ArtifactsTarFile :: string
  Version :: string
  jsBuilder :: JSPackager

text \<open>
  What a run does to the outside world is a list of events, in program order: the log
  lines (message only; the structured fields of a line are left out), and one event for
  every call that leaves the file, with the arguments of the call. File modes are the
  numbers the octal literals of the source denote: \<^verbatim>\<open>0644\<close> is 420 and \<^verbatim>\<open>0755\<close> is 493.
\<close>

datatype event =
    LogInfo string
  | LogErr "error option" string
  | Call_CompileGoBinary string string "string list" string string
  | Call_CompileRustBinary string string string string string "string list"
  | Call_WriteFile string string nat
  | Call_Command string "string list"
  | Call_downloadLatestGithubRelease string string string string
  | Call_extractArchive string string
  | Call_RemoveAll string
  | Call_MkdirAll string nat
  | Call_TarGzip string string
  | Recv_compileCompleted
  | Load_compileFailed

text \<open>
  The functions the file calls and does not define: what each returns for the arguments
  it is given. \<open>ChannelFor\<close> is \<^verbatim>\<open>version.ChannelFor\<close>, \<open>join\<close> the package's path
  helper, \<open>Command\<close> is \<^verbatim>\<open>exec.Command(name, args...).CombinedOutput()\<close> (the output
  and the error); the others carry the names they have in the source.
\<close>

record collaborators =
  ChannelFor :: "string \<Rightarrow> ReleaseChannel"
  join :: "string list \<Rightarrow> string"
  CompileGoBinary :: "string \<Rightarrow> string \<Rightarrow> string list \<Rightarrow> string \<Rightarrow> string \<Rightarrow> error option"
  CompileRustBinary ::
    "string \<Rightarrow> string \<Rightarrow> string \<Rightarrow> string \<Rightarrow> string \<Rightarrow> string list \<Rightarrow> error option"
  WriteFile :: "string \<Rightarrow> string \<Rightarrow> nat \<Rightarrow> error option"
  Command :: "string \<Rightarrow> string list \<Rightarrow> string \<times> error option"
  downloadLatestGithubRelease :: "string \<Rightarrow> string \<Rightarrow> string \<Rightarrow> string \<Rightarrow> error + string"
  extractArchive :: "string \<Rightarrow> string \<Rightarrow> error option"
  RemoveAll :: "string \<Rightarrow> error option"
  MkdirAll :: "string \<Rightarrow> nat \<Rightarrow> error option"
  TarGzip :: "string \<Rightarrow> string \<Rightarrow> error option"

text \<open>
  The kinds of event the properties below speak of: a compiler run, a file write, a run
  of an external command (the two \<^verbatim>\<open>cp\<close>), and the archiver.
\<close>

fun is_compile :: "event \<Rightarrow> bool" where
  "is_compile (Call_CompileGoBinary _ _ _ _ _) = True"
| "is_compile (Call_CompileRustBinary _ _ _ _ _ _) = True"
| "is_compile _ = False"

fun is_write :: "event \<Rightarrow> bool" where
  "is_write (Call_WriteFile _ _ _) = True"
| "is_write _ = False"

fun is_command :: "event \<Rightarrow> bool" where
  "is_command (Call_Command _ _) = True"
| "is_command _ = False"

fun is_archive :: "event \<Rightarrow> bool" where
  "is_archive (Call_TarGzip _ _) = True"
| "is_archive _ = False"

section \<open>The parallel runner\<close>

text \<open>
  \<^verbatim>\<open>runParallel\<close> shares two things among its goroutines: the counter of the
  \<^verbatim>\<open>sync.WaitGroup\<close> and the slot \<^verbatim>\<open>firstErr\<close>.
\<close>

record runner =
  wg :: int
  firstErr :: "error option"

text \<open>
  A step handed to \<^verbatim>\<open>runParallel\<close> is known by what its call \<^verbatim>\<open>f()\<close> does:
  \<open>None\<close> when the call never returns, \<open>Some r\<close> when it returns the Go error \<open>r\<close>.

  The body of one goroutine, from the return of \<^verbatim>\<open>f()\<close> on. The slot is read and written
  between \<^verbatim>\<open>mu.Lock()\<close> and the deferred \<^verbatim>\<open>mu.Unlock()\<close>, so this part of every
  goroutine runs as one indivisible step; the deferred \<^verbatim>\<open>wg.Done()\<close> comes last. It is
  taken together with that step: the caller reads the slot only after every
  \<^verbatim>\<open>wg.Done()\<close>, so only the order of the locked parts can show in what it returns. A
  goroutine whose \<^verbatim>\<open>f()\<close> never returns never gets here. A step that panics takes the
  whole process down; such steps are outside the model.
\<close>

fun goroutine :: "error option option \<Rightarrow> runner \<Rightarrow> runner" where
  "goroutine None s = s"
| "goroutine (Some None) s = s\<lparr>wg := wg s - 1\<rparr>"
| "goroutine (Some (Some err)) s =
     (if firstErr s = None then s\<lparr>firstErr := Some err\<rparr> else s)\<lparr>wg := wg s - 1\<rparr>"

text \<open>The \<^verbatim>\<open>for\<close> loop starts one goroutine for each function, in the order given.\<close>

definition spawn :: "error option option list \<Rightarrow> (runner \<Rightarrow> runner) list" where
  "spawn functions = map goroutine functions"

text \<open>
  \<^verbatim>\<open>runParallel\<close>. The scheduler's part is the list \<open>sched\<close>: the goroutines, by
  position, in the order in which they run the body above. \<^verbatim>\<open>wg.Wait()\<close> lets the caller
  go on only at counter zero, and the caller then returns the slot; \<open>None\<close> says that the
  caller is still blocked after the goroutines of \<open>sched\<close> have had their turn.
\<close>

definition runParallel :: "nat list \<Rightarrow> error option option list \<Rightarrow> error option option" where
  "runParallel sched functions =
     (let units = spawn functions;
          s = fold (\<lambda>i s. if i < length units then (units ! i) s else s) sched
                \<lparr>wg = int (length functions), firstErr = None\<rparr>
      in if wg s = 0 then Some (firstErr s) else None)"

text \<open>
  The schedules: every position names a goroutine that was started, and none is named
  twice. Nothing is asked of the steps: what a goroutine does at its turn, and whether it
  gets to \<^verbatim>\<open>wg.Done()\<close> at all, is decided by \<open>goroutine\<close>.
\<close>

definition schedule_ok :: "nat list \<Rightarrow> error option option list \<Rightarrow> bool" where
  "schedule_ok sched functions \<longleftrightarrow>
     distinct sched \<and> list_all (\<lambda>i. i < length functions) sched"

text \<open>
  One step of the fold in \<open>runParallel\<close>: goroutine \<open>i\<close> runs its body, and a position
  that names no goroutine changes nothing.
\<close>

definition finish :: "error option option list \<Rightarrow> nat \<Rightarrow> runner \<Rightarrow> runner" where
  "finish functions i s = (if i < length functions then goroutine (functions ! i) s else s)"

section \<open>Paths and generated text\<close>

text \<open>
  Go's \<^verbatim>\<open>filepath.Join\<close> on a host whose separator is \<^verbatim>\<open>/\<close>: empty elements are
  dropped, the others joined with the separator, and the result goes through
  \<^verbatim>\<open>filepath.Clean\<close>, which drops empty and \<^verbatim>\<open>.\<close> elements, lets \<^verbatim>\<open>..\<close> cancel the
  element before it, and answers \<^verbatim>\<open>.\<close> for a path with nothing left.
\<close>

fun splitPath :: "string \<Rightarrow> string \<Rightarrow> string list" where
  "splitPath cur [] = [cur]"
| "splitPath cur (c # cs) =
     (if c = CHR ''/'' then cur # splitPath [] cs else splitPath (cur @ [c]) cs)"

fun joinWith :: "string \<Rightarrow> string list \<Rightarrow> string" where
  "joinWith sep [] = []"
| "joinWith sep [x] = x"
| "joinWith sep (x # y # ys) = x @ sep @ joinWith sep (y # ys)"

definition cleanElem :: "bool \<Rightarrow> string \<Rightarrow> string list \<Rightarrow> string list" where
  "cleanElem rooted c out =
     (if c = [] \<or> c = ''.'' then out
      else if c = ''..'' then
        (case out of
           [] \<Rightarrow> if rooted then [] else [''..'']
         | x # xs \<Rightarrow> if x = ''..'' then ''..'' # out else xs)
      else c # out)"

definition Clean :: "string \<Rightarrow> string" where
  "Clean path =
     (case path of
        [] \<Rightarrow> ''.''
      | c # _ \<Rightarrow>
          let rooted = (c = CHR ''/'');
              body = joinWith ''/'' (rev (fold (cleanElem rooted) (splitPath [] path) []))
          in if rooted then ''/'' @ body else if body = [] then ''.'' else body)"

definition filepath_Join :: "string list \<Rightarrow> string" where
  "filepath_Join elems =
     (case filter (\<lambda>e. e \<noteq> []) elems of
        [] \<Rightarrow> []
      | e # es \<Rightarrow> Clean (joinWith ''/'' (e # es)))"

text \<open>The two characters a string literal cannot hold, and the line feed.\<close>

definition squote :: string where
  "squote = [CHR 0x27]"

definition dquote :: string where
  "dquote = [CHR 0x22]"

definition newline :: string where
  "newline = [CHR 0x0A]"

text \<open>
  The bytes \<^verbatim>\<open>buildNodePlugin\<close> writes to \<^verbatim>\<open>version.cjs\<close>: the raw string literal of the
  source around the version.
\<close>

definition versionStamp :: "string \<Rightarrow> string" where
  "versionStamp v =
     ''// Code generated by /pkg/make-release. DO NOT EDIT.'' @ newline @
     newline @
     ''/**'' @ newline @
     '' * The version of the runtime this JS bundle was built for'' @ newline @
     '' */'' @ newline @
     ''module.exports.version = '' @ dquote @ v @ dquote @ '';'' @ newline"

text \<open>
  The two linker flags of the source, each the value that follows a \<^verbatim>\<open>-X\<close>: the
  \<^verbatim>\<open>fmt.Sprintf\<close> around the version, and the concatenation around the version suffix.
\<close>

definition versionFlag :: "string \<Rightarrow> string" where
  "versionFlag v = squote @ ''encr.dev/internal/version.Version='' @ v @ squote"

definition configDirFlag :: "string \<Rightarrow> string" where
  "configDirFlag suffix =
     squote @ ''encr.dev/internal/conf.defaultConfigDirectory=encore'' @ suffix @ squote"

section \<open>The build steps\<close>

text \<open>
  A step returns the events it caused and its Go result. The switch on the release
  channel in \<^verbatim>\<open>buildEncoreCLI\<close> either sets \<^verbatim>\<open>versionSuffix\<close> or leaves the function
  with an error.
\<close>

definition versionSuffix :: "ReleaseChannel \<Rightarrow> string \<Rightarrow> error + string" where
  "versionSuffix channel v =
     (case channel of
        GA \<Rightarrow> Inr []
      | Beta \<Rightarrow> Inr ''-beta''
      | Nightly \<Rightarrow> Inr ''-nightly''
      | DevBuild \<Rightarrow> Inr ''-develop''
      | OtherChannel _ \<Rightarrow> Inl (ErrNewf ''unknown version channel for %s'' [v]))"

definition buildEncoreCLI :: "collaborators \<Rightarrow> DistBuilder \<Rightarrow> event list \<times> error option" where
  "buildEncoreCLI env d =
     (let t0 = [LogInfo ''building encore binary...''];
          linkerOpts = [''-X'', versionFlag (Version d)]
      in case versionSuffix (ChannelFor env (Version d)) (Version d) of
           Inl err \<Rightarrow> (t0, Some err)
         | Inr suffix \<Rightarrow>
             (let linkerOpts' =
                   (if suffix \<noteq> [] then linkerOpts @ [''-X'', configDirFlag suffix]
                    else linkerOpts);
                 out = join env [DistBuildDir d, ''bin'', ''encore'' @ suffix];
                 t1 = t0 @
                   [Call_CompileGoBinary out ''./cli/cmd/encore'' linkerOpts' (OS d) (Arch d)]
             in case CompileGoBinary env out ''./cli/cmd/encore'' linkerOpts' (OS d) (Arch d) of
                  Some err \<Rightarrow>
                    (t1 @ [LogErr (Some err) ''encore failed to build''],
                     Some (ErrWrap err ''compile encore''))
                | None \<Rightarrow> (t1 @ [LogInfo ''encore built successfully''], None)))"

definition buildGitHook :: "collaborators \<Rightarrow> DistBuilder \<Rightarrow> event list \<times> error option" where
  "buildGitHook env d =
     (let out = join env [DistBuildDir d, ''bin'', ''git-remote-encore''];
          t1 = [LogInfo ''building git-remote-encore binary...'',
                Call_CompileGoBinary out ''./cli/cmd/git-remote-encore'' [] (OS d) (Arch d)]
      in case CompileGoBinary env out ''./cli/cmd/git-remote-encore'' [] (OS d) (Arch d) of
           Some err \<Rightarrow>
             (t1 @ [LogErr (Some err) ''git-remote-encore failed to build''],
              Some (ErrWrap err ''compile git-remote-encore''))
         | None \<Rightarrow> (t1 @ [LogInfo ''git-remote-encore built successfully''], None))"

definition buildTSBundler :: "collaborators \<Rightarrow> DistBuilder \<Rightarrow> event list \<times> error option" where
  "buildTSBundler env d =
     (let linkerOpts = [''-X'', versionFlag (Version d)];
          out = join env [DistBuildDir d, ''bin'', ''tsbundler-encore''];
          t1 = [LogInfo ''building tsbundler binary...'',
                Call_CompileGoBinary out ''./cli/cmd/tsbundler-encore'' linkerOpts (OS d) (Arch d)]
      in case CompileGoBinary env out ''./cli/cmd/tsbundler-encore'' linkerOpts (OS d) (Arch d) of
           Some err \<Rightarrow>
             (t1 @ [LogErr (Some err) ''tsbundler failed to build''],
              Some (ErrWrap err ''compile tsbundler''))
         | None \<Rightarrow> (t1 @ [LogInfo ''tsbundler built successfully''], None))"

definition buildTSParser :: "collaborators \<Rightarrow> DistBuilder \<Rightarrow> event list \<times> error option" where
  "buildTSParser env d =
     (let out = join env [DistBuildDir d, ''bin'', ''tsparser-encore''];
          vars = [''ENCORE_VERSION='' @ Version d];
          t1 = [LogInfo ''building ts-parser binary...'',
                Call_CompileRustBinary ''tsparser-encore'' out (TSParserPath d) (OS d) (Arch d) vars]
      in case CompileRustBinary env ''tsparser-encore'' out (TSParserPath d) (OS d) (Arch d) vars of
           Some err \<Rightarrow>
             (t1 @ [LogErr (Some err) ''ts-parser failed to build''],
              Some (ErrWrap err ''compile ts-parser''))
         | None \<Rightarrow> (t1 @ [LogInfo ''ts-parser built successfully''], None))"

text \<open>The function literal at the head of \<^verbatim>\<open>buildNodePlugin\<close>, applied to \<^verbatim>\<open>d.OS\<close>.\<close>

definition compiledBinaryName :: "string \<Rightarrow> error + string" where
  "compiledBinaryName os =
     (if os = ''darwin'' then Inr ''libencore_js_runtime.dylib''
      else if os = ''linux'' then Inr ''libencore_js_runtime.so''
      else if os = ''windows'' then Inr ''encore_js_runtime.dll''
      else Inl (ErrNewf ''unknown OS: %s'' [os]))"

definition buildNodePlugin :: "collaborators \<Rightarrow> DistBuilder \<Rightarrow> event list \<times> error option" where
  "buildNodePlugin env d =
     (let t0 = [LogInfo ''building node plugin...'']
      in case compiledBinaryName (OS d) of
           Inl err \<Rightarrow>
             (t0 @ [LogErr (Some err) ''node plugin failed to build''],
              Some (ErrWrap err ''compile node plugin''))
         | Inr name \<Rightarrow>
             (let path = filepath_Join [''.'', ''runtimes'', ''jscore'', ''api'', ''version.cjs''];
                 t1 = t0 @
                   [LogInfo ''Patching jscore/api/version.cjs...'',
                    Call_WriteFile path (versionStamp (Version d)) 420]
             in case WriteFile env path (versionStamp (Version d)) 420 of
                  Some err \<Rightarrow>
                    (t1 @ [LogErr (Some err) ''failed to patch version.cjs''],
                     Some (ErrWrap err ''write patch version.cjs''))
                | None \<Rightarrow>
                    (let out = join env [DistBuildDir d, ''bin'', ''encore-runtime.node''];
                        vars = [''ENCORE_VERSION='' @ Version d];
                        t2 = t1 @
                          [Call_CompileRustBinary name out ''./runtimes/jscore'' (OS d) (Arch d) vars]
                    in case CompileRustBinary env name out ''./runtimes/jscore'' (OS d) (Arch d) vars of
                         Some err \<Rightarrow>
                           (t2 @ [LogErr (Some err) ''node plugin failed to build''],
                            Some (ErrWrap err ''compile node plugin''))
                       | None \<Rightarrow> (t2 @ [LogInfo ''node plugin built successfully''], None))))"

definition downloadEncoreGo :: "collaborators \<Rightarrow> DistBuilder \<Rightarrow> event list \<times> error option" where
  "downloadEncoreGo env d =
     (let t0 = [LogInfo ''downloading latest encore-go...'',
                Call_downloadLatestGithubRelease ''encoredev'' ''go'' (OS d) (Arch d)]
      in case downloadLatestGithubRelease env ''encoredev'' ''go'' (OS d) (Arch d) of
           Inl err \<Rightarrow>
             (t0 @ [LogErr (Some err) ''failed to download encore-go''],
              Some (ErrWrap err ''download encore-go''))
         | Inr encoreGoArchive \<Rightarrow>
             (let t1 = t0 @
                   [LogInfo ''extracting encore-go...'',
                    Call_extractArchive encoreGoArchive (DistBuildDir d)]
             in case extractArchive env encoreGoArchive (DistBuildDir d) of
                  Some err \<Rightarrow>
                    (t1 @ [LogErr (Some err) ''failed to extract encore-go''],
                     Some (ErrWrap err ''extract encore-go''))
                | None \<Rightarrow> (t1 @ [LogInfo ''encore-go extracted successfully''], None)))"

definition copyEncoreRuntimeForGo :: "collaborators \<Rightarrow> DistBuilder \<Rightarrow> event list \<times> error option" where
  "copyEncoreRuntimeForGo env d =
     (let args = [''-r'', ''runtimes/go/.'', join env [DistBuildDir d, ''runtimes'', ''go''] @ ''/''];
          t1 = [LogInfo ''copying encore runtime for Go...'', Call_Command ''cp'' args]
      in case Command env ''cp'' args of
           (out, Some err) \<Rightarrow>
             (t1 @ [LogErr (Some err) ''encore runtime for go failed to be copied''],
              Some (ErrWrapf err ''cp go runtime: %s'' [out]))
         | (out, None) \<Rightarrow> (t1 @ [LogInfo ''encore runtime for go copied successfully''], None))"

text \<open>
  The one step that can block: the receive on \<^verbatim>\<open>d.jsBuilder.compileCompleted\<close>. When the
  channel never delivers, the step has logged one line and never returns, which is the
  result \<open>None\<close>; every other outcome is \<open>Some\<close> of a Go result.
\<close>

definition copyEncoreRuntimeForJS ::
    "collaborators \<Rightarrow> DistBuilder \<Rightarrow> event list \<times> error option option" where
  "copyEncoreRuntimeForJS env d =
     (let t0 = [LogInfo ''waiting for JS packager to complete...'']
      in if \<not> compileCompleted (jsBuilder d) then (t0, None)
         else
           let t1 = t0 @ [Recv_compileCompleted, Load_compileFailed]
           in if compileFailed (jsBuilder d)
              then (t1 @ [LogErr None ''JS packager failed to build''],
                    Some (Some (ErrNew ''js build failed'')))
              else
                let args = [''-r'', DistFolder (jsBuilder d) @ ''/.'',
                            join env [DistBuildDir d, ''runtimes'', ''js''] @ ''/''];
                    t2 = t1 @ [LogInfo ''copying encore runtime for JS...'', Call_Command ''cp'' args]
                in case Command env ''cp'' args of
                     (out, Some err) \<Rightarrow>
                       (t2 @ [LogErr (Some err) ''encore runtime for js failed to be copied''],
                        Some (Some (ErrWrapf err ''cp js runtime: %s'' [out])))
                   | (out, None) \<Rightarrow>
                       (t2 @ [LogInfo ''encore runtime for js copied successfully''], Some None))"

section \<open>The orchestrator\<close>

text \<open>
  The chain of \<^verbatim>\<open>if\<close>/\<^verbatim>\<open>else if\<close> at the head of \<^verbatim>\<open>Build\<close>, which prepares the target
  directory: the first call that fails ends it, with a log line and a wrapped error.
\<close>

definition prepareTargetDir :: "collaborators \<Rightarrow> DistBuilder \<Rightarrow> event list \<times> error option" where
  "prepareTargetDir env d =
     (let dir = DistBuildDir d;
          t1 = [Call_RemoveAll dir]
      in case RemoveAll env dir of
           Some err \<Rightarrow>
             (t1 @ [LogErr (Some err) ''failed to remove existing target dir''],
              Some (ErrWrap err ''remove target dir''))
         | None \<Rightarrow>
       (let t2 = t1 @ [Call_MkdirAll dir 493]
       in case MkdirAll env dir 493 of
            Some err \<Rightarrow>
              (t2 @ [LogErr (Some err) ''failed to create target dir''],
               Some (ErrWrap err ''create target dir''))
          | None \<Rightarrow>
       (let t3 = t2 @ [Call_MkdirAll (join env [dir, ''bin'']) 493]
       in case MkdirAll env (join env [dir, ''bin'']) 493 of
            Some err \<Rightarrow>
              (t3 @ [LogErr (Some err) ''failed to create bin dir''],
               Some (ErrWrap err ''create bin dir''))
          | None \<Rightarrow>
       (let t4 = t3 @ [Call_MkdirAll (join env [dir, ''runtimes'']) 493]
       in case MkdirAll env (join env [dir, ''runtimes'']) 493 of
            Some err \<Rightarrow>
              (t4 @ [LogErr (Some err) ''failed to create runtimes dir''],
               Some (ErrWrap err ''create runtimes/go dir''))
          | None \<Rightarrow>
       (let t5 = t4 @ [Call_MkdirAll (join env [dir, ''runtimes'', ''go'']) 493]
       in case MkdirAll env (join env [dir, ''runtimes'', ''go'']) 493 of
            Some err \<Rightarrow>
              (t5 @ [LogErr (Some err) ''failed to create runtimes/go dir''],
               Some (ErrWrap err ''create runtimes/go dir''))
          | None \<Rightarrow>
       (let t6 = t5 @ [Call_MkdirAll (join env [dir, ''runtimes'', ''js'']) 493]
       in case MkdirAll env (join env [dir, ''runtimes'', ''js'']) 493 of
            Some err \<Rightarrow>
              (t6 @ [LogErr (Some err) ''failed to create runtimes/js dir''],
               Some (ErrWrap err ''create runtimes/js dir''))
          | None \<Rightarrow> (t6, None)))))))"

text \<open>A step that cannot block, as a step that may.\<close>

definition returns :: "event list \<times> error option \<Rightarrow> event list \<times> error option option" where
  "returns r = (fst r, Some (snd r))"

text \<open>The eight steps \<^verbatim>\<open>Build\<close> hands to \<^verbatim>\<open>runParallel\<close>, in the order of the call.\<close>

definition buildSteps ::
    "collaborators \<Rightarrow> DistBuilder \<Rightarrow> (event list \<times> error option option) list" where
  "buildSteps env d =
     [returns (buildEncoreCLI env d),
      returns (buildTSBundler env d),
      returns (buildGitHook env d),
      returns (buildTSParser env d),
      returns (buildNodePlugin env d),
      returns (copyEncoreRuntimeForGo env d),
      copyEncoreRuntimeForJS env d,
      returns (downloadEncoreGo env d)]"

text \<open>
  A run of \<^verbatim>\<open>Build\<close>: the events before the steps start, the events of each step (each
  list in the order of its own goroutine; how the eight interleave is left open), the
  events after the steps, and the result, \<open>None\<close> when \<^verbatim>\<open>Build\<close> has not returned.
\<close>

record build_run =
  prep_events :: "event list"
  step_events :: "event list list"
  post_events :: "event list"
  outcome :: "error option option"

definition Build :: "collaborators \<Rightarrow> nat list \<Rightarrow> DistBuilder \<Rightarrow> build_run" where
  "Build env sched d =
     (let t0 = [LogInfo ''building distribution...'']
      in case prepareTargetDir env d of
           (pe, Some err) \<Rightarrow>
             \<lparr>prep_events = t0 @ pe, step_events = [], post_events = [],
              outcome = Some (Some err)\<rparr>
         | (pe, None) \<Rightarrow>
             (let steps = buildSteps env d
             in case runParallel sched (map snd steps) of
                  None \<Rightarrow>
                    \<lparr>prep_events = t0 @ pe, step_events = map fst steps, post_events = [],
                     outcome = None\<rparr>
                | Some (Some err) \<Rightarrow>
                    \<lparr>prep_events = t0 @ pe, step_events = map fst steps,
                     post_events = [LogErr (Some err) ''failed to build distribution''],
                     outcome = Some (Some (ErrWrapf err '' os: %s, arch: %s'' [OS d, Arch d]))\<rparr>
                | Some None \<Rightarrow>
                    (let t1 = [LogInfo ''creating distribution tar file...'',
                              Call_TarGzip (DistBuildDir d) (ArtifactsTarFile d)]
                    in case TarGzip env (DistBuildDir d) (ArtifactsTarFile d) of
                         Some err \<Rightarrow>
                           \<lparr>prep_events = t0 @ pe, step_events = map fst steps,
                            post_events = t1 @ [LogErr (Some err) ''failed to tar gzip distribution''],
                            outcome = Some (Some (ErrWrapf err '' os: %s, arch: %s'' [OS d, Arch d]))\<rparr>
                       | None \<Rightarrow>
                           \<lparr>prep_events = t0 @ pe, step_events = map fst steps,
                            post_events = t1 @ [LogInfo ''distribution built successfully''],
                            outcome = Some None\<rparr>)))"

text \<open>
  Every event of a run, part after part and step after step (across the steps this is
  not the order in time).
\<close>

definition events_of :: "build_run \<Rightarrow> event list" where
  "events_of r = prep_events r @ concat (step_events r) @ post_events r"

section \<open>A request and its collaborators, for the examples\<close>

text \<open>
  The request of the end-to-end scenario (\<^verbatim>\<open>linux\<close>, \<^verbatim>\<open>amd64\<close>, version \<^verbatim>\<open>1.2.3\<close>) with a
  JS packager that has finished without failure, and collaborators that all succeed: the
  version is on the general-availability channel and paths are joined with \<^verbatim>\<open>/\<close>. The
  variants that follow make one collaborator fail.
\<close>

definition all_succeed :: collaborators where
  "all_succeed =
     \<lparr>ChannelFor = (\<lambda>_. GA),
      join = joinWith ''/'',
      CompileGoBinary = (\<lambda>_ _ _ _ _. None),
      CompileRustBinary = (\<lambda>_ _ _ _ _ _. None),
      WriteFile = (\<lambda>_ _ _. None),
      Command = (\<lambda>_ _. ([], None)),
      downloadLatestGithubRelease = (\<lambda>_ _ _ _. Inr ''encore-go.tar.gz''),
      extractArchive = (\<lambda>_ _. None),
      RemoveAll = (\<lambda>_. None),
      MkdirAll = (\<lambda>_ _. None),
      TarGzip = (\<lambda>_ _. None)\<rparr>"

definition linux_amd64 :: DistBuilder where
  "linux_amd64 =
     \<lparr>OS = ''linux'', Arch = ''amd64'', TSParserPath = ''ts-parser'', DistBuildDir = ''dist'',
      ArtifactsTarFile = ''encore-linux_amd64.tar.gz'', Version = ''1.2.3'',
      jsBuilder = \<lparr>compileCompleted = True, compileFailed = False, DistFolder = ''jsdist''\<rparr>\<rparr>"

definition fetch_fails :: collaborators where
  "fetch_fails =
     all_succeed\<lparr>downloadLatestGithubRelease := (\<lambda>_ _ _ _. Inl (ErrExt ''no release found''))\<rparr>"

definition archive_fails :: collaborators where
  "archive_fails = all_succeed\<lparr>TarGzip := (\<lambda>_ _. Some (ErrExt ''disk full''))\<rparr>"

text \<open>The same request while the JS packager has not yet signalled its completion.\<close>

definition packager_pending :: DistBuilder where
  "packager_pending =
     linux_amd64\<lparr>jsBuilder :=
       \<lparr>compileCompleted = False, compileFailed = False, DistFolder = ''jsdist''\<rparr>\<rparr>"

definition mkdir_fails :: "string \<Rightarrow> collaborators" where
  "mkdir_fails path =
     all_succeed\<lparr>MkdirAll :=
       (\<lambda>p mode. if p = path then Some (ErrExt ''permission denied'') else None)\<rparr>"

section \<open>Properties of the parallel runner\<close>

lemma runParallel_fold:
  "runParallel sched functions =
     (let s = fold (finish functions) sched \<lparr>wg = int (length functions), firstErr = None\<rparr>
      in if wg s = 0 then Some (firstErr s) else None)"
proof -
  have "(\<lambda>i s. if i < length (spawn functions) then (spawn functions ! i) s else s) = finish functions"
    by (intro ext) (simp add: spawn_def finish_def)
  then show ?thesis
    by (simp add: runParallel_def)
qed

text \<open>
  The counter goes down by one for every goroutine of the schedule whose step has
  returned, and by nothing for one whose step never returns.
\<close>

lemma wg_goroutine: "wg (goroutine r s) = (if r = None then wg s else wg s - 1)"
  by (cases "(r, s)" rule: goroutine.cases) auto

lemma wg_fold:
  "list_all (\<lambda>i. i < length functions) sched \<Longrightarrow>
   wg (fold (finish functions) sched s) =
     wg s - int (length (filter (\<lambda>i. functions ! i \<noteq> None) sched))"
  by (induction sched arbitrary: s) (simp_all add: finish_def wg_goroutine)

lemma firstErr_kept:
  "firstErr s = Some e \<Longrightarrow> firstErr (fold (finish functions) sched s) = Some e"
proof (induction sched arbitrary: s)
  case Nil
  then show ?case by simp
next
  case (Cons i sched)
  have "firstErr (finish functions i s) = Some e"
    using Cons.prems by (cases "(functions ! i, s)" rule: goroutine.cases) (auto simp: finish_def)
  then show ?case using Cons.IH by simp
qed

lemma firstErr_successes:
  "list_all (\<lambda>j. j < length functions \<and> functions ! j = Some None) pre \<Longrightarrow>
   firstErr (fold (finish functions) pre s) = firstErr s"
  by (induction pre arbitrary: s) (simp_all add: finish_def)

lemma firstErr_first_failure:
  assumes "list_all (\<lambda>j. j < length functions \<and> functions ! j = Some None) pre"
    and "i < length functions" and "functions ! i = Some (Some e)" and "firstErr s = None"
  shows "firstErr (fold (finish functions) (pre @ i # post) s) = Some e"
proof -
  have "firstErr (fold (finish functions) pre s) = None"
    using assms(1,4) by (simp add: firstErr_successes)
  then have "firstErr (finish functions i (fold (finish functions) pre s)) = Some e"
    using assms(2,3) by (simp add: finish_def)
  then show ?thesis
    by (simp add: firstErr_kept)
qed

lemma complete_iff_length:
  assumes "distinct sched" and "list_all (\<lambda>i. i < n) sched"
  shows "(\<forall>i<n. i \<in> set sched) \<longleftrightarrow> length sched = n"
proof -
  have sub: "set sched \<subseteq> {..<n}"
    using assms(2) by (auto simp: list_all_iff)
  have card: "card (set sched) = length sched"
    using assms(1) by (simp add: distinct_card)
  show ?thesis
  proof
    assume "\<forall>i<n. i \<in> set sched"
    then have "set sched = {..<n}" using sub by auto
    then show "length sched = n" using card by simp
  next
    assume "length sched = n"
    then have "card (set sched) = card {..<n}" using card by simp
    then have "set sched = {..<n}"
      using sub by (simp add: card_subset_eq)
    then show "\<forall>i<n. i \<in> set sched" by auto
  qed
qed

text \<open>
  The join barrier, from the counter alone: the caller gets past \<^verbatim>\<open>wg.Wait()\<close> exactly
  when every goroutine has had its turn and every step has returned.
\<close>

lemma runParallel_returns_iff:
  assumes "schedule_ok sched functions"
  shows "runParallel sched functions \<noteq> None \<longleftrightarrow>
           (\<forall>i<length functions. i \<in> set sched \<and> functions ! i \<noteq> None)"
proof -
  let ?returned = "filter (\<lambda>i. functions ! i \<noteq> None) sched"
  have range: "list_all (\<lambda>i. i < length functions) sched" and dist: "distinct sched"
    using assms by (simp_all add: schedule_ok_def)
  have "wg (fold (finish functions) sched \<lparr>wg = int (length functions), firstErr = None\<rparr>)
          = int (length functions) - int (length ?returned)"
    using range by (simp add: wg_fold)
  then have "runParallel sched functions \<noteq> None \<longleftrightarrow> length ?returned = length functions"
    by (auto simp: runParallel_fold Let_def)
  moreover have "(\<forall>i<length functions. i \<in> set ?returned) \<longleftrightarrow>
      length ?returned = length functions"
  proof (rule complete_iff_length)
    show "distinct ?returned" using dist by simp
    show "list_all (\<lambda>i. i < length functions) ?returned"
      using range by (simp add: list_all_iff)
  qed
  ultimately show ?thesis by simp
qed

lemma runParallel_blocked_step:
  assumes "schedule_ok sched functions" and "k < length functions" and "functions ! k = None"
  shows "runParallel sched functions = None"
  using runParallel_returns_iff [OF assms(1)] assms(2,3) by blast

lemma runParallel_result:
  "runParallel sched functions \<noteq> None \<Longrightarrow>
   runParallel sched functions =
     Some (firstErr (fold (finish functions) sched \<lparr>wg = int (length functions), firstErr = None\<rparr>))"
  by (simp add: runParallel_fold Let_def split: if_splits)

lemma split_first_failure:
  assumes "\<exists>i\<in>set sched. P i"
  shows "\<exists>pre i post. sched = pre @ i # post \<and> list_all (\<lambda>j. \<not> P j) pre \<and> P i"
  using assms split_list_first_prop[of sched P] by (auto simp: list_all_iff)

lemma runParallel_first_failure:
  assumes ok: "schedule_ok sched functions"
    and all: "\<forall>i<length functions. i \<in> set sched \<and> functions ! i \<noteq> None"
    and fails: "k < length functions" "functions ! k \<noteq> Some None"
  shows "\<exists>pre i post e. sched = pre @ i # post \<and>
               list_all (\<lambda>j. functions ! j = Some None) pre \<and>
               i < length functions \<and> functions ! i = Some (Some e) \<and>
               runParallel sched functions = Some (Some e)"
proof -
  have ret: "runParallel sched functions \<noteq> None"
    using all runParallel_returns_iff [OF ok] by simp
  have valid: "list_all (\<lambda>i. i < length functions \<and> functions ! i \<noteq> None) sched"
    using ok all by (auto simp: schedule_ok_def list_all_iff)
  have "k \<in> set sched" using all fails(1) by simp
  then have "\<exists>i\<in>set sched. functions ! i \<noteq> Some None"
    using fails(2) by (rule bexI [rotated])
  then obtain pre i post where sp: "sched = pre @ i # post"
    and pre: "list_all (\<lambda>j. \<not> functions ! j \<noteq> Some None) pre"
    and i: "functions ! i \<noteq> Some None"
    using split_first_failure [of sched "\<lambda>i. functions ! i \<noteq> Some None"] by blast
  have i_in: "i < length functions" and i_ret: "functions ! i \<noteq> None"
    using valid sp by (simp_all add: list_all_iff)
  from i i_ret obtain e where e: "functions ! i = Some (Some e)"
    by (cases "functions ! i") auto
  have pre': "list_all (\<lambda>j. j < length functions \<and> functions ! j = Some None) pre"
    using pre valid sp by (auto simp: list_all_iff)
  have "firstErr (fold (finish functions) sched \<lparr>wg = int (length functions), firstErr = None\<rparr>) = Some e"
    unfolding sp using pre' i_in e by (intro firstErr_first_failure) simp_all
  then have "runParallel sched functions = Some (Some e)"
    using runParallel_result [OF ret] by simp
  moreover have "list_all (\<lambda>j. functions ! j = Some None) pre"
    using pre by (simp add: list_all_iff)
  ultimately show ?thesis
    using sp i_in e by blast
qed

lemma runParallel_nil_all_succeeded:
  assumes ok: "schedule_ok sched functions"
    and nil: "runParallel sched functions = Some None"
  shows "list_all (\<lambda>r. r = Some None) functions"
proof -
  have all: "\<forall>i<length functions. i \<in> set sched \<and> functions ! i \<noteq> None"
    using runParallel_returns_iff [OF ok] nil by simp
  have "functions ! k = Some None" if k: "k < length functions" for k
  proof (rule ccontr)
    assume "functions ! k \<noteq> Some None"
    then obtain e where "runParallel sched functions = Some (Some e)"
      using runParallel_first_failure [OF ok all k] by blast
    then show False using nil by simp
  qed
  then show ?thesis
    by (simp add: list_all_length)
qed

text \<open>
  C1. Let at least one step fail (step \<open>k\<close> returns the error \<open>e0\<close>), and take any
  schedule. While some goroutine has not had its turn, or if some step never returns,
  \<^verbatim>\<open>runParallel\<close> has not returned: it waits for all steps to finish, and a step that
  never finishes keeps it waiting for good. Once every step has returned and every
  goroutine has had its turn, it returns a non-nil error, and that error is the one returned
  by the first failing step of the schedule, the first to be stored in \<^verbatim>\<open>firstErr\<close>
  under the lock: every step before it in the schedule succeeded, and whatever the steps
  after it returned is dropped. The error is a failing step's own, never a success.
\<close>

theorem runParallel_first_recorded_error:
  assumes ok: "schedule_ok sched functions"
    and fails: "k < length functions" "functions ! k = Some (Some e0)"
  shows "((\<exists>i<length functions. i \<notin> set sched \<or> functions ! i = None) \<longrightarrow>
            runParallel sched functions = None) \<and>
         ((\<forall>i<length functions. i \<in> set sched \<and> functions ! i \<noteq> None) \<longrightarrow>
            (\<exists>pre i post e. sched = pre @ i # post \<and>
               list_all (\<lambda>j. functions ! j = Some None) pre \<and>
               i < length functions \<and> functions ! i = Some (Some e) \<and>
               runParallel sched functions = Some (Some e)))"
proof (intro conjI impI)
  assume "\<exists>i<length functions. i \<notin> set sched \<or> functions ! i = None"
  then show "runParallel sched functions = None"
    using runParallel_returns_iff [OF ok] by auto
next
  assume all: "\<forall>i<length functions. i \<in> set sched \<and> functions ! i \<noteq> None"
  have "functions ! k \<noteq> Some None"
    using fails(2) by simp
  then show "\<exists>pre i post e. sched = pre @ i # post \<and>
               list_all (\<lambda>j. functions ! j = Some None) pre \<and>
               i < length functions \<and> functions ! i = Some (Some e) \<and>
               runParallel sched functions = Some (Some e)"
    by (rule runParallel_first_failure [OF ok all fails(1)])
qed

lemma runParallel_eval3:
  "runParallel [0, 2, 1] [Some None, Some (Some (ErrNew ''a'')), Some (Some (ErrNew ''b''))]
     = Some (Some (ErrNew ''b''))"
  by (simp add: runParallel_def spawn_def)

text \<open>
  The theorem at three steps, the last two failing, finishing in the order 0, 2, 1: the
  error of step 2 comes back; after 0 and 2 alone the caller is still waiting. And at two
  steps of which the first never returns: the caller never returns, although the second
  has failed and both goroutines have had their turn.
\<close>

theorem runParallel_first_recorded_error_witness:
  "schedule_ok [0, 2, 1] [Some None, Some (Some (ErrNew ''a'')), Some (Some (ErrNew ''b''))] \<and>
   runParallel [0, 2, 1] [Some None, Some (Some (ErrNew ''a'')), Some (Some (ErrNew ''b''))]
     = Some (Some (ErrNew ''b'')) \<and>
   schedule_ok [0, 2] [Some None, Some (Some (ErrNew ''a'')), Some (Some (ErrNew ''b''))] \<and>
   runParallel [0, 2] [Some None, Some (Some (ErrNew ''a'')), Some (Some (ErrNew ''b''))] = None \<and>
   schedule_ok [0, 1] [None, Some (Some (ErrNew ''a''))] \<and>
   runParallel [0, 1] [None, Some (Some (ErrNew ''a''))] = None"
proof -
  let ?fs = "[Some None, Some (Some (ErrNew ''a'')), Some (Some (ErrNew ''b''))]"
  let ?gs = "[None, Some (Some (ErrNew ''a''))]"
  have ok: "schedule_ok [0, 2, 1] ?fs" and ok': "schedule_ok [0, 2] ?fs"
    and ok'': "schedule_ok [0, 1] ?gs"
    by (simp_all add: schedule_ok_def)
  have k: "(1::nat) < length ?fs" "?fs ! 1 = Some (Some (ErrNew ''a''))"
    and k': "(1::nat) < length ?gs" "?gs ! 1 = Some (Some (ErrNew ''a''))"
    by simp_all
  have "\<exists>i<length ?fs. i \<notin> set [0, 2::nat] \<or> ?fs ! i = None"
    by (intro exI [of _ 1]) simp
  then have "runParallel [0, 2] ?fs = None"
    using runParallel_first_recorded_error [OF ok' k] by blast
  moreover have "\<exists>i<length ?gs. i \<notin> set [0, 1::nat] \<or> ?gs ! i = None"
    by (intro exI [of _ 0]) simp
  then have "runParallel [0, 1] ?gs = None"
    using runParallel_first_recorded_error [OF ok'' k'] by blast
  moreover have "runParallel [0, 2, 1] ?fs = Some (Some (ErrNew ''b''))"
    by (rule runParallel_eval3)
  ultimately show ?thesis
    using ok ok' ok'' by blast
qed



text \<open>
  C9. Given no steps, \<^verbatim>\<open>runParallel\<close> starts no goroutine, the only schedule there is
  is the empty one, and the call returns \<^verbatim>\<open>nil\<close> without waiting for anything.
\<close>

theorem runParallel_no_steps:
  "spawn [] = [] \<and>
   (schedule_ok sched [] \<longrightarrow> sched = [] \<and> runParallel sched [] = Some None)"
proof -
  have "sched = []" if "schedule_ok sched []"
    using that by (cases sched) (simp_all add: schedule_ok_def)
  then show ?thesis
    by (auto simp: spawn_def runParallel_def)
qed

text \<open>
  The theorem at the empty schedule.
\<close>

theorem runParallel_no_steps_witness:
  "schedule_ok [] [] \<and> spawn [] = [] \<and> runParallel [] [] = Some None"
  using runParallel_no_steps [of "[]"] by (simp add: schedule_ok_def)

section \<open>Properties of the build steps\<close>

text \<open>
  C4. The switch maps the general-availability channel to the empty suffix, beta to
  \<^verbatim>\<open>-beta\<close>, nightly to \<^verbatim>\<open>-nightly\<close>, a development build to \<^verbatim>\<open>-develop\<close>, and any
  other channel to an error naming the version: the one \<^verbatim>\<open>errors.Newf\<close> builds from the
  format \<^verbatim>\<open>unknown version channel for %s\<close> with the version as its argument. On a
  channel of the four, \<^verbatim>\<open>buildEncoreCLI\<close> runs the Go compiler once, for the binary
  \<^verbatim>\<open>encore\<close> followed by the suffix; on any other channel it returns that error and runs
  no compiler at all.
\<close>

theorem buildEncoreCLI_channel_suffix:
  "versionSuffix GA v = Inr [] \<and>
   versionSuffix Beta v = Inr ''-beta'' \<and>
   versionSuffix Nightly v = Inr ''-nightly'' \<and>
   versionSuffix DevBuild v = Inr ''-develop'' \<and>
   versionSuffix (OtherChannel c) v = Inl (ErrNewf ''unknown version channel for %s'' [v]) \<and>
   (\<forall>suffix. versionSuffix (ChannelFor env (Version d)) (Version d) = Inr suffix \<longrightarrow>
      (\<exists>opts. filter is_compile (fst (buildEncoreCLI env d)) =
         [Call_CompileGoBinary (join env [DistBuildDir d, ''bin'', ''encore'' @ suffix])
            ''./cli/cmd/encore'' opts (OS d) (Arch d)])) \<and>
   (\<forall>c. ChannelFor env (Version d) = OtherChannel c \<longrightarrow>
      snd (buildEncoreCLI env d) = Some (ErrNewf ''unknown version channel for %s'' [Version d]) \<and>
      filter is_compile (fst (buildEncoreCLI env d)) = [])"
  by (auto simp: versionSuffix_def buildEncoreCLI_def Let_def split: option.splits)

text \<open>
  The theorem on the nightly channel and on a channel \<^verbatim>\<open>rc\<close> that the switch does not
  know.
\<close>

theorem buildEncoreCLI_channel_suffix_witness:
  "filter is_compile (fst (buildEncoreCLI (all_succeed\<lparr>ChannelFor := (\<lambda>_. Nightly)\<rparr>) linux_amd64)) =
     [Call_CompileGoBinary ''dist/bin/encore-nightly'' ''./cli/cmd/encore''
        [''-X'', versionFlag ''1.2.3'', ''-X'', configDirFlag ''-nightly''] ''linux'' ''amd64''] \<and>
   snd (buildEncoreCLI (all_succeed\<lparr>ChannelFor := (\<lambda>_. OtherChannel ''rc'')\<rparr>) linux_amd64) =
     Some (ErrNewf ''unknown version channel for %s'' [''1.2.3'']) \<and>
   filter is_compile (fst (buildEncoreCLI (all_succeed\<lparr>ChannelFor := (\<lambda>_. OtherChannel ''rc'')\<rparr>) linux_amd64)) = []"
proof -
  let ?n = "all_succeed\<lparr>ChannelFor := (\<lambda>_. Nightly)\<rparr>"
  let ?u = "all_succeed\<lparr>ChannelFor := (\<lambda>_. OtherChannel ''rc'')\<rparr>"
  have n: "versionSuffix (ChannelFor ?n (Version linux_amd64)) (Version linux_amd64) = Inr ''-nightly''"
    by (simp add: all_succeed_def versionSuffix_def)
  have u: "ChannelFor ?u (Version linux_amd64) = OtherChannel ''rc''"
    by (simp add: all_succeed_def)
  from buildEncoreCLI_channel_suffix [of _ _ ?n linux_amd64] n
  obtain opts where "filter is_compile (fst (buildEncoreCLI ?n linux_amd64)) =
      [Call_CompileGoBinary (join ?n [DistBuildDir linux_amd64, ''bin'', ''encore'' @ ''-nightly''])
            ''./cli/cmd/encore'' opts (OS linux_amd64) (Arch linux_amd64)]"
    by blast
  moreover have "filter is_compile (fst (buildEncoreCLI ?n linux_amd64)) =
     [Call_CompileGoBinary ''dist/bin/encore-nightly'' ''./cli/cmd/encore''
        [''-X'', versionFlag ''1.2.3'', ''-X'', configDirFlag ''-nightly''] ''linux'' ''amd64'']"
    by (simp add: buildEncoreCLI_def all_succeed_def linux_amd64_def versionSuffix_def Let_def)
  moreover from buildEncoreCLI_channel_suffix [of _ _ ?u linux_amd64] u
  have "snd (buildEncoreCLI ?u linux_amd64) = Some (ErrNewf ''unknown version channel for %s'' [Version linux_amd64]) \<and>
      filter is_compile (fst (buildEncoreCLI ?u linux_amd64)) = []"
    by blast
  ultimately show ?thesis
    by (simp add: linux_amd64_def)
qed

lemma configDirFlag_not_versionFlag: "configDirFlag suffix \<noteq> versionFlag v"
  by (simp add: configDirFlag_def versionFlag_def squote_def)

lemma configDirFlag_not_X: "configDirFlag suffix \<noteq> ''-X''"
  by (simp add: configDirFlag_def squote_def)

text \<open>
  C7 as stated fails on the general-availability channel: version \<^verbatim>\<open>1.2.3\<close> is compiled
  with the version flag alone, so no compiler run of the step carries both that flag and
  a configuration-directory flag.
\<close>

theorem buildEncoreCLI_GA_no_config_flag:
  "\<not> (\<exists>out opts suffix.
        Call_CompileGoBinary out ''./cli/cmd/encore'' opts ''linux'' ''amd64''
          \<in> set (fst (buildEncoreCLI all_succeed linux_amd64)) \<and>
        versionFlag ''1.2.3'' \<in> set opts \<and> configDirFlag suffix \<in> set opts)"
proof -
  have "fst (buildEncoreCLI all_succeed linux_amd64) =
      [LogInfo ''building encore binary...'',
       Call_CompileGoBinary ''dist/bin/encore'' ''./cli/cmd/encore'' [''-X'', versionFlag ''1.2.3'']
         ''linux'' ''amd64'',
       LogInfo ''encore built successfully'']"
    by (simp add: buildEncoreCLI_def all_succeed_def linux_amd64_def versionSuffix_def Let_def)
  then show ?thesis
    using configDirFlag_not_versionFlag configDirFlag_not_X by auto
qed

text \<open>
  C7, amended. On every channel of the four, \<^verbatim>\<open>buildEncoreCLI\<close> compiles
  \<^verbatim>\<open>./cli/cmd/encore\<close> once and passes the version flag; it passes the
  configuration-directory flag for \<^verbatim>\<open>encore\<close> followed by the suffix as well exactly when the
  channel is not general availability (the guard \<^verbatim>\<open>versionSuffix != ""\<close>).
\<close>

theorem buildEncoreCLI_linker_flags:
  assumes "versionSuffix (ChannelFor env (Version d)) (Version d) = Inr suffix"
  shows "filter is_compile (fst (buildEncoreCLI env d)) =
           [Call_CompileGoBinary (join env [DistBuildDir d, ''bin'', ''encore'' @ suffix])
              ''./cli/cmd/encore''
              ([''-X'', versionFlag (Version d)] @
               (if ChannelFor env (Version d) = GA then [] else [''-X'', configDirFlag suffix]))
              (OS d) (Arch d)]"
  using assms
  by (cases "ChannelFor env (Version d)")
     (auto simp: versionSuffix_def buildEncoreCLI_def Let_def split: option.splits)

text \<open>
  The theorem on the beta channel (both flags) and on general availability (the version
  flag alone).
\<close>

theorem buildEncoreCLI_linker_flags_witness:
  "filter is_compile (fst (buildEncoreCLI (all_succeed\<lparr>ChannelFor := (\<lambda>_. Beta)\<rparr>) linux_amd64)) =
     [Call_CompileGoBinary ''dist/bin/encore-beta'' ''./cli/cmd/encore''
        [''-X'', versionFlag ''1.2.3'', ''-X'', configDirFlag ''-beta''] ''linux'' ''amd64''] \<and>
   filter is_compile (fst (buildEncoreCLI all_succeed linux_amd64)) =
     [Call_CompileGoBinary ''dist/bin/encore'' ''./cli/cmd/encore''
        [''-X'', versionFlag ''1.2.3''] ''linux'' ''amd64'']"
proof -
  let ?b = "all_succeed\<lparr>ChannelFor := (\<lambda>_. Beta)\<rparr>"
  have b: "versionSuffix (ChannelFor ?b (Version linux_amd64)) (Version linux_amd64) = Inr ''-beta''"
    and g: "versionSuffix (ChannelFor all_succeed (Version linux_amd64)) (Version linux_amd64) = Inr []"
    by (simp_all add: all_succeed_def versionSuffix_def)
  show ?thesis
    using buildEncoreCLI_linker_flags [OF b] buildEncoreCLI_linker_flags [OF g]
    by (simp add: all_succeed_def linux_amd64_def)
qed

text \<open>
  C5. \<^verbatim>\<open>copyEncoreRuntimeForJS\<close> first waits for \<^verbatim>\<open>compileCompleted\<close>: if the signal never
  comes the step never returns, and if it comes the step has received it before it reads
  the failure flag. With the flag set it returns the error \<^verbatim>\<open>js build failed\<close> and runs no
  command. With the flag clear it runs \<^verbatim>\<open>cp -r\<close> once, from the packager's \<^verbatim>\<open>DistFolder\<close> into
  \<^verbatim>\<open>runtimes/js\<close> of the build directory, and returns \<^verbatim>\<open>nil\<close> unless the command fails, in
  which case the command's error comes back wrapped with its output (by \<^verbatim>\<open>errors.Wrapf\<close>,
  format \<^verbatim>\<open>cp js runtime: %s\<close>, the output as the argument).
\<close>

theorem copyEncoreRuntimeForJS_waits_then_copies:
  "(\<not> compileCompleted (jsBuilder d) \<longrightarrow>
      copyEncoreRuntimeForJS env d = ([LogInfo ''waiting for JS packager to complete...''], None)) \<and>
   (compileCompleted (jsBuilder d) \<longrightarrow>
      take 3 (fst (copyEncoreRuntimeForJS env d)) =
        [LogInfo ''waiting for JS packager to complete...'', Recv_compileCompleted,
         Load_compileFailed]) \<and>
   (compileCompleted (jsBuilder d) \<and> compileFailed (jsBuilder d) \<longrightarrow>
      snd (copyEncoreRuntimeForJS env d) = Some (Some (ErrNew ''js build failed'')) \<and>
      filter is_command (fst (copyEncoreRuntimeForJS env d)) = []) \<and>
   (compileCompleted (jsBuilder d) \<and> \<not> compileFailed (jsBuilder d) \<longrightarrow>
      filter is_command (fst (copyEncoreRuntimeForJS env d)) =
        [Call_Command ''cp''
           [''-r'', DistFolder (jsBuilder d) @ ''/.'',
            join env [DistBuildDir d, ''runtimes'', ''js''] @ ''/'']] \<and>
      snd (copyEncoreRuntimeForJS env d) =
        Some (case Command env ''cp''
                     [''-r'', DistFolder (jsBuilder d) @ ''/.'',
                      join env [DistBuildDir d, ''runtimes'', ''js''] @ ''/''] of
                (out, None) \<Rightarrow> None
              | (out, Some err) \<Rightarrow> Some (ErrWrapf err ''cp js runtime: %s'' [out])))"
  by (auto simp: copyEncoreRuntimeForJS_def Let_def split: option.splits prod.splits)

text \<open>
  The theorem at a packager that never signals, at one that signals failure, and at one
  that signals success.
\<close>

theorem copyEncoreRuntimeForJS_waits_then_copies_witness:
  "copyEncoreRuntimeForJS all_succeed
     (linux_amd64\<lparr>jsBuilder := \<lparr>compileCompleted = False, compileFailed = False, DistFolder = ''jsdist''\<rparr>\<rparr>)
     = ([LogInfo ''waiting for JS packager to complete...''], None) \<and>
   snd (copyEncoreRuntimeForJS all_succeed
     (linux_amd64\<lparr>jsBuilder := \<lparr>compileCompleted = True, compileFailed = True, DistFolder = ''jsdist''\<rparr>\<rparr>))
     = Some (Some (ErrNew ''js build failed'')) \<and>
   filter is_command (fst (copyEncoreRuntimeForJS all_succeed
     (linux_amd64\<lparr>jsBuilder := \<lparr>compileCompleted = True, compileFailed = True, DistFolder = ''jsdist''\<rparr>\<rparr>)))
     = [] \<and>
   filter is_command (fst (copyEncoreRuntimeForJS all_succeed linux_amd64)) =
     [Call_Command ''cp'' [''-r'', ''jsdist/.'', ''dist/runtimes/js/'']] \<and>
   snd (copyEncoreRuntimeForJS all_succeed linux_amd64) = Some None"
proof -
  let ?blocked = "linux_amd64\<lparr>jsBuilder := \<lparr>compileCompleted = False, compileFailed = False, DistFolder = ''jsdist''\<rparr>\<rparr>"
  let ?failed = "linux_amd64\<lparr>jsBuilder := \<lparr>compileCompleted = True, compileFailed = True, DistFolder = ''jsdist''\<rparr>\<rparr>"
  have "\<not> compileCompleted (jsBuilder ?blocked)"
    and "compileCompleted (jsBuilder ?failed) \<and> compileFailed (jsBuilder ?failed)"
    and "compileCompleted (jsBuilder linux_amd64) \<and> \<not> compileFailed (jsBuilder linux_amd64)"
    by (simp_all add: linux_amd64_def)
  then show ?thesis
    using copyEncoreRuntimeForJS_waits_then_copies [of ?blocked all_succeed]
      copyEncoreRuntimeForJS_waits_then_copies [of ?failed all_succeed]
      copyEncoreRuntimeForJS_waits_then_copies [of linux_amd64 all_succeed]
    by (simp add: all_succeed_def linux_amd64_def)
qed

lemma version_cjs_path:
  "filepath_Join [''.'', ''runtimes'', ''jscore'', ''api'', ''version.cjs'']
     = ''runtimes/jscore/api/version.cjs''"
  by (simp add: filepath_Join_def Clean_def cleanElem_def)

lemma compiledBinaryName_cases:
  "compiledBinaryName os =
     (if os = ''darwin'' then Inr ''libencore_js_runtime.dylib''
      else if os = ''linux'' then Inr ''libencore_js_runtime.so''
      else if os = ''windows'' then Inr ''encore_js_runtime.dll''
      else Inl (ErrNewf ''unknown OS: %s'' [os]))"
  by (simp add: compiledBinaryName_def)

text \<open>
  C6. The artifact is \<^verbatim>\<open>libencore_js_runtime.dylib\<close> on darwin, \<^verbatim>\<open>libencore_js_runtime.so\<close>
  on linux and \<^verbatim>\<open>encore_js_runtime.dll\<close> on windows. For any other OS \<^verbatim>\<open>buildNodePlugin\<close>
  returns an error (the one \<^verbatim>\<open>errors.Newf\<close> builds from the format \<^verbatim>\<open>unknown OS: %s\<close> with
  the OS as its argument, wrapped as \<^verbatim>\<open>compile node plugin\<close>), having run no compiler and
  written no file. For an OS that has an artifact name, once \<^verbatim>\<open>version.cjs\<close> is written,
  the one compiler run of the step is the Rust build of that artifact.
\<close>

theorem buildNodePlugin_unknown_OS:
  "compiledBinaryName ''darwin'' = Inr ''libencore_js_runtime.dylib'' \<and>
   compiledBinaryName ''linux'' = Inr ''libencore_js_runtime.so'' \<and>
   compiledBinaryName ''windows'' = Inr ''encore_js_runtime.dll'' \<and>
   (OS d \<noteq> ''darwin'' \<and> OS d \<noteq> ''linux'' \<and> OS d \<noteq> ''windows'' \<longrightarrow>
      snd (buildNodePlugin env d) =
        Some (ErrWrap (ErrNewf ''unknown OS: %s'' [OS d]) ''compile node plugin'') \<and>
      filter is_compile (fst (buildNodePlugin env d)) = [] \<and>
      filter is_write (fst (buildNodePlugin env d)) = []) \<and>
   (\<forall>name. compiledBinaryName (OS d) = Inr name \<and>
        WriteFile env ''runtimes/jscore/api/version.cjs'' (versionStamp (Version d)) 420 = None \<longrightarrow>
      filter is_compile (fst (buildNodePlugin env d)) =
        [Call_CompileRustBinary name (join env [DistBuildDir d, ''bin'', ''encore-runtime.node''])
           ''./runtimes/jscore'' (OS d) (Arch d) [''ENCORE_VERSION='' @ Version d]])"
proof -
  have names: "compiledBinaryName ''darwin'' = Inr ''libencore_js_runtime.dylib''"
    "compiledBinaryName ''linux'' = Inr ''libencore_js_runtime.so''"
    "compiledBinaryName ''windows'' = Inr ''encore_js_runtime.dll''"
    by (simp_all add: compiledBinaryName_def)
  have unknown: "snd (buildNodePlugin env d) =
        Some (ErrWrap (ErrNewf ''unknown OS: %s'' [OS d]) ''compile node plugin'') \<and>
      filter is_compile (fst (buildNodePlugin env d)) = [] \<and>
      filter is_write (fst (buildNodePlugin env d)) = []"
    if "OS d \<noteq> ''darwin'' \<and> OS d \<noteq> ''linux'' \<and> OS d \<noteq> ''windows''"
  proof -
    have "compiledBinaryName (OS d) = Inl (ErrNewf ''unknown OS: %s'' [OS d])"
      using that by (simp add: compiledBinaryName_cases)
    then show ?thesis
      by (simp add: buildNodePlugin_def Let_def)
  qed
  have known: "filter is_compile (fst (buildNodePlugin env d)) =
        [Call_CompileRustBinary name (join env [DistBuildDir d, ''bin'', ''encore-runtime.node''])
           ''./runtimes/jscore'' (OS d) (Arch d) [''ENCORE_VERSION='' @ Version d]]"
    if "compiledBinaryName (OS d) = Inr name"
      and "WriteFile env ''runtimes/jscore/api/version.cjs'' (versionStamp (Version d)) 420 = None"
    for name
    using that
    by (simp add: buildNodePlugin_def Let_def version_cjs_path split: option.splits)
  show ?thesis
    using names unknown known by blast
qed

text \<open>
  The theorem at the OS \<^verbatim>\<open>freebsd\<close> and at \<^verbatim>\<open>linux\<close>.
\<close>

theorem buildNodePlugin_unknown_OS_witness:
  "snd (buildNodePlugin all_succeed (linux_amd64\<lparr>OS := ''freebsd''\<rparr>)) =
     Some (ErrWrap (ErrNewf ''unknown OS: %s'' [''freebsd'']) ''compile node plugin'') \<and>
   filter is_compile (fst (buildNodePlugin all_succeed (linux_amd64\<lparr>OS := ''freebsd''\<rparr>))) = [] \<and>
   filter is_write (fst (buildNodePlugin all_succeed (linux_amd64\<lparr>OS := ''freebsd''\<rparr>))) = [] \<and>
   filter is_compile (fst (buildNodePlugin all_succeed linux_amd64)) =
     [Call_CompileRustBinary ''libencore_js_runtime.so'' ''dist/bin/encore-runtime.node''
        ''./runtimes/jscore'' ''linux'' ''amd64'' [''ENCORE_VERSION=1.2.3'']]"
proof -
  let ?f = "linux_amd64\<lparr>OS := ''freebsd''\<rparr>"
  have f: "OS ?f \<noteq> ''darwin'' \<and> OS ?f \<noteq> ''linux'' \<and> OS ?f \<noteq> ''windows''"
    by simp
  have l: "compiledBinaryName (OS linux_amd64) = Inr ''libencore_js_runtime.so'' \<and>
      WriteFile all_succeed ''runtimes/jscore/api/version.cjs''
        (versionStamp (Version linux_amd64)) 420 = None"
    by (simp add: compiledBinaryName_def linux_amd64_def all_succeed_def)
  have "snd (buildNodePlugin all_succeed ?f) =
        Some (ErrWrap (ErrNewf ''unknown OS: %s'' [OS ?f]) ''compile node plugin'') \<and>
      filter is_compile (fst (buildNodePlugin all_succeed ?f)) = [] \<and>
      filter is_write (fst (buildNodePlugin all_succeed ?f)) = []"
    using buildNodePlugin_unknown_OS [of ?f all_succeed] f by blast
  moreover have "filter is_compile (fst (buildNodePlugin all_succeed linux_amd64)) =
        [Call_CompileRustBinary ''libencore_js_runtime.so''
           (join all_succeed [DistBuildDir linux_amd64, ''bin'', ''encore-runtime.node''])
           ''./runtimes/jscore'' (OS linux_amd64) (Arch linux_amd64)
           [''ENCORE_VERSION='' @ Version linux_amd64]]"
    using buildNodePlugin_unknown_OS [of linux_amd64 all_succeed] l by blast
  ultimately show ?thesis
    by (simp add: linux_amd64_def all_succeed_def)
qed

text \<open>
  C10. Whenever \<^verbatim>\<open>buildNodePlugin\<close> gets past the OS check it writes exactly one file, at
  the relative path \<^verbatim>\<open>runtimes/jscore/api/version.cjs\<close>, whatever the build directory, the
  OS, the architecture and the collaborators are; the bytes written depend on the
  \<^verbatim>\<open>Version\<close> field alone. So two builds of the same version write the same bytes to the
  same file.
\<close>

theorem buildNodePlugin_version_stamp_path:
  "(\<forall>name. compiledBinaryName (OS d) = Inr name \<longrightarrow>
      filter is_write (fst (buildNodePlugin env d)) =
        [Call_WriteFile ''runtimes/jscore/api/version.cjs'' (versionStamp (Version d)) 420]) \<and>
   (\<forall>name name'. compiledBinaryName (OS d) = Inr name \<and> compiledBinaryName (OS d') = Inr name' \<and>
        Version d = Version d' \<longrightarrow>
      filter is_write (fst (buildNodePlugin env d)) = filter is_write (fst (buildNodePlugin env' d')))"
proof -
  have w: "filter is_write (fst (buildNodePlugin e b)) =
        [Call_WriteFile ''runtimes/jscore/api/version.cjs'' (versionStamp (Version b)) 420]"
    if "compiledBinaryName (OS b) = Inr name" for e b name
    using that
    by (simp add: buildNodePlugin_def Let_def version_cjs_path split: option.splits)
  show ?thesis
    using w by metis
qed

text \<open>
  The theorem at the linux request and at a windows request with another architecture,
  build directory and path helper.
\<close>

theorem buildNodePlugin_version_stamp_path_witness:
  "filter is_write (fst (buildNodePlugin all_succeed linux_amd64)) =
     [Call_WriteFile ''runtimes/jscore/api/version.cjs'' (versionStamp ''1.2.3'') 420] \<and>
   filter is_write (fst (buildNodePlugin all_succeed linux_amd64)) =
     filter is_write (fst (buildNodePlugin (all_succeed\<lparr>join := concat\<rparr>)
       (linux_amd64\<lparr>OS := ''windows'', Arch := ''arm64'', DistBuildDir := ''out''\<rparr>)))"
proof -
  let ?w = "linux_amd64\<lparr>OS := ''windows'', Arch := ''arm64'', DistBuildDir := ''out''\<rparr>"
  have l: "compiledBinaryName (OS linux_amd64) = Inr ''libencore_js_runtime.so''"
    and w: "compiledBinaryName (OS ?w) = Inr ''encore_js_runtime.dll''"
    and v: "Version linux_amd64 = Version ?w"
    by (simp_all add: compiledBinaryName_def linux_amd64_def)
  have "filter is_write (fst (buildNodePlugin all_succeed linux_amd64)) =
        [Call_WriteFile ''runtimes/jscore/api/version.cjs'' (versionStamp (Version linux_amd64)) 420]"
    using buildNodePlugin_version_stamp_path [of linux_amd64 all_succeed] l by blast
  moreover have "filter is_write (fst (buildNodePlugin all_succeed linux_amd64)) =
      filter is_write (fst (buildNodePlugin (all_succeed\<lparr>join := concat\<rparr>) ?w))"
    using buildNodePlugin_version_stamp_path [of linux_amd64 all_succeed ?w] l w v by blast
  ultimately show ?thesis
    by (simp add: linux_amd64_def)
qed

section \<open>Properties of the orchestrator\<close>

lemma no_archive_buildEncoreCLI: "filter is_archive (fst (buildEncoreCLI env d)) = []"
  by (simp add: buildEncoreCLI_def Let_def split: sum.splits option.splits)

lemma no_archive_buildGitHook: "filter is_archive (fst (buildGitHook env d)) = []"
  by (simp add: buildGitHook_def Let_def split: option.splits)

lemma no_archive_buildTSBundler: "filter is_archive (fst (buildTSBundler env d)) = []"
  by (simp add: buildTSBundler_def Let_def split: option.splits)

lemma no_archive_buildTSParser: "filter is_archive (fst (buildTSParser env d)) = []"
  by (simp add: buildTSParser_def Let_def split: option.splits)

lemma no_archive_buildNodePlugin: "filter is_archive (fst (buildNodePlugin env d)) = []"
  by (simp add: buildNodePlugin_def Let_def split: sum.splits option.splits)

lemma no_archive_downloadEncoreGo: "filter is_archive (fst (downloadEncoreGo env d)) = []"
  by (simp add: downloadEncoreGo_def Let_def split: sum.splits option.splits)

lemma no_archive_copyEncoreRuntimeForGo: "filter is_archive (fst (copyEncoreRuntimeForGo env d)) = []"
  by (simp add: copyEncoreRuntimeForGo_def Let_def split: prod.splits option.splits)

lemma no_archive_copyEncoreRuntimeForJS: "filter is_archive (fst (copyEncoreRuntimeForJS env d)) = []"
  by (simp add: copyEncoreRuntimeForJS_def Let_def split: prod.splits option.splits)

lemma no_archive_buildSteps:
  "filter is_archive (concat (map fst (buildSteps env d))) = []"
  by (simp add: buildSteps_def returns_def no_archive_buildEncoreCLI no_archive_buildGitHook
      no_archive_buildTSBundler no_archive_buildTSParser no_archive_buildNodePlugin
      no_archive_downloadEncoreGo no_archive_copyEncoreRuntimeForGo
      no_archive_copyEncoreRuntimeForJS)

lemma no_archive_prepareTargetDir: "filter is_archive (fst (prepareTargetDir env d)) = []"
  by (simp add: prepareTargetDir_def Let_def split: option.splits)

lemma Build_prep_failed:
  "snd (prepareTargetDir env d) = Some err \<Longrightarrow>
   Build env sched d =
     \<lparr>prep_events = LogInfo ''building distribution...'' # fst (prepareTargetDir env d),
      step_events = [], post_events = [], outcome = Some (Some err)\<rparr>"
  by (cases "prepareTargetDir env d") (simp add: Build_def)

lemma Build_blocked:
  "snd (prepareTargetDir env d) = None \<Longrightarrow>
   runParallel sched (map snd (buildSteps env d)) = None \<Longrightarrow>
   Build env sched d =
     \<lparr>prep_events = LogInfo ''building distribution...'' # fst (prepareTargetDir env d),
      step_events = map fst (buildSteps env d), post_events = [], outcome = None\<rparr>"
  by (cases "prepareTargetDir env d") (simp add: Build_def Let_def)

lemma Build_step_failed:
  "snd (prepareTargetDir env d) = None \<Longrightarrow>
   runParallel sched (map snd (buildSteps env d)) = Some (Some err) \<Longrightarrow>
   Build env sched d =
     \<lparr>prep_events = LogInfo ''building distribution...'' # fst (prepareTargetDir env d),
      step_events = map fst (buildSteps env d),
      post_events = [LogErr (Some err) ''failed to build distribution''],
      outcome = Some (Some (ErrWrapf err '' os: %s, arch: %s'' [OS d, Arch d]))\<rparr>"
  by (cases "prepareTargetDir env d") (simp add: Build_def Let_def)

lemma Build_archived:
  "snd (prepareTargetDir env d) = None \<Longrightarrow>
   runParallel sched (map snd (buildSteps env d)) = Some None \<Longrightarrow>
   Build env sched d =
     \<lparr>prep_events = LogInfo ''building distribution...'' # fst (prepareTargetDir env d),
      step_events = map fst (buildSteps env d),
      post_events =
        [LogInfo ''creating distribution tar file...'',
         Call_TarGzip (DistBuildDir d) (ArtifactsTarFile d),
         (case TarGzip env (DistBuildDir d) (ArtifactsTarFile d) of
            Some err \<Rightarrow> LogErr (Some err) ''failed to tar gzip distribution''
          | None \<Rightarrow> LogInfo ''distribution built successfully'')],
      outcome =
        Some (case TarGzip env (DistBuildDir d) (ArtifactsTarFile d) of
                Some err \<Rightarrow> Some (ErrWrapf err '' os: %s, arch: %s'' [OS d, Arch d])
              | None \<Rightarrow> None)\<rparr>"
  by (cases "prepareTargetDir env d") (simp add: Build_def Let_def split: option.splits)

lemma archive_events_Build:
  "filter is_archive (events_of (Build env sched d)) =
     (if snd (prepareTargetDir env d) = None \<and>
         runParallel sched (map snd (buildSteps env d)) = Some None
      then [Call_TarGzip (DistBuildDir d) (ArtifactsTarFile d)] else [])"
proof (cases "snd (prepareTargetDir env d)")
  case (Some err)
  then show ?thesis
    by (simp add: Build_prep_failed events_of_def no_archive_prepareTargetDir)
next
  case None
  show ?thesis
  proof (cases "runParallel sched (map snd (buildSteps env d))")
    case None
    with \<open>snd (prepareTargetDir env d) = None\<close> show ?thesis
      by (simp add: Build_blocked events_of_def no_archive_prepareTargetDir no_archive_buildSteps)
  next
    case (Some r)
    show ?thesis
    proof (cases r)
      case None
      with Some \<open>snd (prepareTargetDir env d) = None\<close> show ?thesis
        by (simp add: Build_archived events_of_def no_archive_prepareTargetDir
            no_archive_buildSteps split: option.splits)
    next
      case (Some err)
      with \<open>runParallel sched (map snd (buildSteps env d)) = Some r\<close>
        \<open>snd (prepareTargetDir env d) = None\<close> show ?thesis
        by (simp add: Build_step_failed events_of_def no_archive_prepareTargetDir
            no_archive_buildSteps)
    qed
  qed
qed

text \<open>
  C3. When the preparation has succeeded and \<^verbatim>\<open>runParallel\<close> returns an error, \<^verbatim>\<open>Build\<close>
  returns that error wrapped with the OS and the architecture (by \<^verbatim>\<open>errors.Wrapf\<close>, format
  \<^verbatim>\<open> os: %s, arch: %s\<close>, the two as its arguments), and the archiver is not called
  anywhere in the run. Under any schedule and whatever the steps do, when the archiver is
  called, it is called once, after the join and on the build directory, every goroutine
  has had its turn and every step has returned, with \<^verbatim>\<open>nil\<close>: a step still running, or one
  that never returns, keeps the archiver from being called. When the archiver then fails,
  its error comes back wrapped with the OS and the architecture in the same way.
\<close>

theorem Build_archives_only_after_success:
  "(\<forall>err. snd (prepareTargetDir env d) = None \<and>
        runParallel sched (map snd (buildSteps env d)) = Some (Some err) \<longrightarrow>
      outcome (Build env sched d) =
        Some (Some (ErrWrapf err '' os: %s, arch: %s'' [OS d, Arch d])) \<and>
      filter is_archive (events_of (Build env sched d)) = []) \<and>
   (schedule_ok sched (map snd (buildSteps env d)) \<and>
      filter is_archive (events_of (Build env sched d)) \<noteq> [] \<longrightarrow>
      (\<forall>i<length (buildSteps env d). i \<in> set sched) \<and>
      list_all (\<lambda>r. r = Some None) (map snd (buildSteps env d)) \<and>
      filter is_archive (prep_events (Build env sched d) @ concat (step_events (Build env sched d))) = [] \<and>
      filter is_archive (post_events (Build env sched d)) =
        [Call_TarGzip (DistBuildDir d) (ArtifactsTarFile d)]) \<and>
   (\<forall>err. filter is_archive (events_of (Build env sched d)) \<noteq> [] \<and>
        TarGzip env (DistBuildDir d) (ArtifactsTarFile d) = Some err \<longrightarrow>
      outcome (Build env sched d) =
        Some (Some (ErrWrapf err '' os: %s, arch: %s'' [OS d, Arch d])))"
proof -
  let ?steps = "map snd (buildSteps env d)"
  have failed: "outcome (Build env sched d) = Some (Some (ErrWrapf err '' os: %s, arch: %s'' [OS d, Arch d])) \<and>
      filter is_archive (events_of (Build env sched d)) = []"
    if "snd (prepareTargetDir env d) = None \<and> runParallel sched ?steps = Some (Some err)" for err
  proof
    show "outcome (Build env sched d) = Some (Some (ErrWrapf err '' os: %s, arch: %s'' [OS d, Arch d]))"
      using that by (simp add: Build_step_failed)
    show "filter is_archive (events_of (Build env sched d)) = []"
      using that by (simp add: archive_events_Build)
  qed
  have archived: "(\<forall>i<length (buildSteps env d). i \<in> set sched) \<and>
      list_all (\<lambda>r. r = Some None) ?steps \<and>
      filter is_archive (prep_events (Build env sched d) @ concat (step_events (Build env sched d))) = [] \<and>
      filter is_archive (post_events (Build env sched d)) =
        [Call_TarGzip (DistBuildDir d) (ArtifactsTarFile d)]"
    if a: "schedule_ok sched ?steps \<and> filter is_archive (events_of (Build env sched d)) \<noteq> []"
  proof -
    from a have prep: "snd (prepareTargetDir env d) = None"
      and nil: "runParallel sched ?steps = Some None"
      by (simp_all add: archive_events_Build split: if_splits)
    from a have ok: "schedule_ok sched ?steps" by simp
    have "\<forall>i<length (buildSteps env d). i \<in> set sched"
      using runParallel_returns_iff [OF ok] nil by simp
    moreover have "list_all (\<lambda>r. r = Some None) ?steps"
      using runParallel_nil_all_succeeded [OF ok nil] .
    moreover have "filter is_archive
        (prep_events (Build env sched d) @ concat (step_events (Build env sched d))) = []"
      using prep nil
      by (simp add: Build_archived no_archive_prepareTargetDir no_archive_buildSteps)
    moreover have "filter is_archive (post_events (Build env sched d)) =
        [Call_TarGzip (DistBuildDir d) (ArtifactsTarFile d)]"
      using prep nil by (simp add: Build_archived split: option.splits)
    ultimately show ?thesis by blast
  qed
  have archiver_failed: "outcome (Build env sched d) = Some (Some (ErrWrapf err '' os: %s, arch: %s'' [OS d, Arch d]))"
    if a: "filter is_archive (events_of (Build env sched d)) \<noteq> [] \<and>
        TarGzip env (DistBuildDir d) (ArtifactsTarFile d) = Some err" for err
  proof -
    from a have "snd (prepareTargetDir env d) = None"
      and "runParallel sched ?steps = Some None"
      by (simp_all add: archive_events_Build split: if_splits)
    then show ?thesis
      using a by (simp add: Build_archived)
  qed
  show ?thesis
    using failed archived archiver_failed by blast
qed

lemma prepare_fetch_fails: "snd (prepareTargetDir fetch_fails linux_amd64) = None"
  by (simp add: prepareTargetDir_def fetch_fails_def all_succeed_def Let_def)

lemma steps_fetch_fails:
  "map snd (buildSteps fetch_fails linux_amd64) =
     [Some None, Some None, Some None, Some None, Some None, Some None, Some None,
      Some (Some (ErrWrap (ErrExt ''no release found'') ''download encore-go''))]"
  by (simp add: buildSteps_def returns_def buildEncoreCLI_def buildTSBundler_def buildGitHook_def
      buildTSParser_def buildNodePlugin_def copyEncoreRuntimeForGo_def copyEncoreRuntimeForJS_def
      downloadEncoreGo_def versionSuffix_def compiledBinaryName_def fetch_fails_def all_succeed_def
      linux_amd64_def Let_def)

lemma prepare_archive_fails: "snd (prepareTargetDir archive_fails linux_amd64) = None"
  by (simp add: prepareTargetDir_def archive_fails_def all_succeed_def Let_def)

lemma steps_archive_fails:
  "map snd (buildSteps archive_fails linux_amd64) =
     [Some None, Some None, Some None, Some None, Some None, Some None, Some None, Some None]"
  by (simp add: buildSteps_def returns_def buildEncoreCLI_def buildTSBundler_def buildGitHook_def
      buildTSParser_def buildNodePlugin_def copyEncoreRuntimeForGo_def copyEncoreRuntimeForJS_def
      downloadEncoreGo_def versionSuffix_def compiledBinaryName_def archive_fails_def
      all_succeed_def linux_amd64_def Let_def)

lemma run8_fetch_fails:
  "runParallel [7, 6, 5, 4, 3, 2, 1, 0]
     [Some None, Some None, Some None, Some None, Some None, Some None, Some None,
      Some (Some (ErrWrap (ErrExt ''no release found'') ''download encore-go''))]
     = Some (Some (ErrWrap (ErrExt ''no release found'') ''download encore-go''))"
  by (simp add: runParallel_def spawn_def)

lemma run8_all_succeed:
  "runParallel [7, 6, 5, 4, 3, 2, 1, 0]
     [Some None, Some None, Some None, Some None, Some None, Some None, Some None, Some None]
     = Some (None :: error option)"
  by (simp add: runParallel_def spawn_def)

lemma ok8:
  "schedule_ok [7, 6, 5, 4, 3, 2, 1, 0]
     [Some None, Some None, Some None, Some None, Some None, Some None, Some None,
      Some (None :: error option)]"
  by (simp add: schedule_ok_def)

lemma steps_packager_pending:
  "map snd (buildSteps all_succeed packager_pending) =
     [Some None, Some None, Some None, Some None, Some None, Some None, None, Some None]"
  by (simp add: buildSteps_def returns_def buildEncoreCLI_def buildTSBundler_def buildGitHook_def
      buildTSParser_def buildNodePlugin_def copyEncoreRuntimeForGo_def copyEncoreRuntimeForJS_def
      downloadEncoreGo_def versionSuffix_def compiledBinaryName_def all_succeed_def
      packager_pending_def linux_amd64_def Let_def)

lemma ok8_pending:
  "schedule_ok [7, 6, 5, 4, 3, 2, 1, 0]
     [Some None, Some None, Some None, Some None, Some None, Some None, None,
      Some (None :: error option)]"
  by (simp add: schedule_ok_def)

text \<open>
  The theorem at the request of the end-to-end scenario, once with a release download
  that fails and once with an archiver that fails, the goroutines finishing last to
  first; and once with a JS packager that has not signalled, where all eight goroutines
  have had their turn, seven steps have succeeded, and the archiver is not called.
\<close>

theorem Build_archives_only_after_success_witness:
  "outcome (Build fetch_fails [7, 6, 5, 4, 3, 2, 1, 0] linux_amd64) =
     Some (Some (ErrWrapf (ErrWrap (ErrExt ''no release found'') ''download encore-go'')
                   '' os: %s, arch: %s'' [''linux'', ''amd64''])) \<and>
   filter is_archive (events_of (Build fetch_fails [7, 6, 5, 4, 3, 2, 1, 0] linux_amd64)) = [] \<and>
   filter is_archive (events_of (Build archive_fails [7, 6, 5, 4, 3, 2, 1, 0] linux_amd64)) =
     [Call_TarGzip ''dist'' ''encore-linux_amd64.tar.gz''] \<and>
   list_all (\<lambda>r. r = Some None) (map snd (buildSteps archive_fails linux_amd64)) \<and>
   outcome (Build archive_fails [7, 6, 5, 4, 3, 2, 1, 0] linux_amd64) =
     Some (Some (ErrWrapf (ErrExt ''disk full'') '' os: %s, arch: %s'' [''linux'', ''amd64''])) \<and>
   schedule_ok [7, 6, 5, 4, 3, 2, 1, 0] (map snd (buildSteps all_succeed packager_pending)) \<and>
   filter is_archive (events_of (Build all_succeed [7, 6, 5, 4, 3, 2, 1, 0] packager_pending)) = []"
proof -
  let ?s = "[7, 6, 5, 4, 3, 2, 1, 0] :: nat list"
  have f: "snd (prepareTargetDir fetch_fails linux_amd64) = None \<and>
      runParallel ?s (map snd (buildSteps fetch_fails linux_amd64)) =
        Some (Some (ErrWrap (ErrExt ''no release found'') ''download encore-go''))"
    by (simp only: prepare_fetch_fails steps_fetch_fails run8_fetch_fails simp_thms)
  have "filter is_archive (events_of (Build archive_fails ?s linux_amd64)) =
      [Call_TarGzip (DistBuildDir linux_amd64) (ArtifactsTarFile linux_amd64)]"
    by (simp only: archive_events_Build prepare_archive_fails steps_archive_fails
        run8_all_succeed simp_thms if_True)
  moreover have "DistBuildDir linux_amd64 = ''dist''"
    and "ArtifactsTarFile linux_amd64 = ''encore-linux_amd64.tar.gz''"
    by (simp_all add: linux_amd64_def)
  ultimately have arch: "filter is_archive (events_of (Build archive_fails ?s linux_amd64)) =
      [Call_TarGzip ''dist'' ''encore-linux_amd64.tar.gz'']"
    by simp
  have a: "schedule_ok ?s (map snd (buildSteps archive_fails linux_amd64)) \<and>
      filter is_archive (events_of (Build archive_fails ?s linux_amd64)) \<noteq> []"
    using arch by (simp only: steps_archive_fails ok8) simp
  have t: "filter is_archive (events_of (Build archive_fails ?s linux_amd64)) \<noteq> [] \<and>
      TarGzip archive_fails (DistBuildDir linux_amd64) (ArtifactsTarFile linux_amd64) =
        Some (ErrExt ''disk full'')"
    using arch by (simp add: archive_fails_def)
  have p: "schedule_ok ?s (map snd (buildSteps all_succeed packager_pending))"
    by (simp only: steps_packager_pending ok8_pending)
  have q: "\<not> list_all (\<lambda>r. r = Some None) (map snd (buildSteps all_succeed packager_pending))"
    by (simp only: steps_packager_pending) simp
  note main = Build_archives_only_after_success
  have "outcome (Build fetch_fails ?s linux_amd64) =
        Some (Some (ErrWrapf (ErrWrap (ErrExt ''no release found'') ''download encore-go'')
          '' os: %s, arch: %s'' [OS linux_amd64, Arch linux_amd64])) \<and>
      filter is_archive (events_of (Build fetch_fails ?s linux_amd64)) = []"
    using main [of fetch_fails linux_amd64 ?s] f by blast
  moreover have "list_all (\<lambda>r. r = Some None) (map snd (buildSteps archive_fails linux_amd64))"
    using main [of archive_fails linux_amd64 ?s] a by blast
  moreover have "outcome (Build archive_fails ?s linux_amd64) =
        Some (Some (ErrWrapf (ErrExt ''disk full'')
          '' os: %s, arch: %s'' [OS linux_amd64, Arch linux_amd64]))"
    using main [of archive_fails linux_amd64 ?s] t by blast
  moreover have "filter is_archive (events_of (Build all_succeed ?s packager_pending)) = []"
    using main [of all_succeed packager_pending ?s] p q by blast
  moreover have "OS linux_amd64 = ''linux''" and "Arch linux_amd64 = ''amd64''"
    by (simp_all add: linux_amd64_def)
  ultimately show ?thesis
    using arch p by simp
qed

text \<open>
  C8 at a failing input. When creating \<^verbatim>\<open>runtimes\<close> fails, \<^verbatim>\<open>Build\<close> stops before any
  step starts and logs \<^verbatim>\<open>failed to create runtimes dir\<close>, but the error it returns is wrapped
  as \<^verbatim>\<open>create runtimes/go dir\<close>: the description that a failure to create \<^verbatim>\<open>runtimes/go\<close>
  gets. The two failures cannot be told apart by the returned error.
\<close>

theorem Build_runtimes_dir_mislabelled:
  "outcome (Build (mkdir_fails ''dist/runtimes'') [] linux_amd64) =
     Some (Some (ErrWrap (ErrExt ''permission denied'') ''create runtimes/go dir'')) \<and>
   last (prep_events (Build (mkdir_fails ''dist/runtimes'') [] linux_amd64)) =
     LogErr (Some (ErrExt ''permission denied'')) ''failed to create runtimes dir'' \<and>
   step_events (Build (mkdir_fails ''dist/runtimes'') [] linux_amd64) = [] \<and>
   outcome (Build (mkdir_fails ''dist/runtimes/go'') [] linux_amd64) =
     Some (Some (ErrWrap (ErrExt ''permission denied'') ''create runtimes/go dir''))"
proof -
  have a: "prepareTargetDir (mkdir_fails ''dist/runtimes'') linux_amd64 =
      ([Call_RemoveAll ''dist'', Call_MkdirAll ''dist'' 493, Call_MkdirAll ''dist/bin'' 493,
        Call_MkdirAll ''dist/runtimes'' 493,
        LogErr (Some (ErrExt ''permission denied'')) ''failed to create runtimes dir''],
       Some (ErrWrap (ErrExt ''permission denied'') ''create runtimes/go dir''))"
    by (simp add: prepareTargetDir_def mkdir_fails_def all_succeed_def linux_amd64_def Let_def)
  have b: "prepareTargetDir (mkdir_fails ''dist/runtimes/go'') linux_amd64 =
      ([Call_RemoveAll ''dist'', Call_MkdirAll ''dist'' 493, Call_MkdirAll ''dist/bin'' 493,
        Call_MkdirAll ''dist/runtimes'' 493, Call_MkdirAll ''dist/runtimes/go'' 493,
        LogErr (Some (ErrExt ''permission denied'')) ''failed to create runtimes/go dir''],
       Some (ErrWrap (ErrExt ''permission denied'') ''create runtimes/go dir''))"
    by (simp add: prepareTargetDir_def mkdir_fails_def all_succeed_def linux_amd64_def Let_def)
  show ?thesis
    by (simp add: Build_def a b)
qed

end
